theory Spec2Isabelle
  imports Complex_Main "HOL-Library.Char_ord" "HOL-Library.List_Lexorder" "HOL-Library.Sublist"
begin

section \<open>Data model: the spreadsheet as a data frame\<close>

text \<open>
  \<^verbatim>\<open>SRP_Spatial_Dashboard.py\<close> keeps the spreadsheet in one pandas data frame,
  \<^verbatim>\<open>master_df\<close>, and every callback filters a copy of it. A frame is modelled as its
  ordered column names, the dtype pandas gave each column when it read the file, and its
  rows in file order, each row holding one cell per column.

  A cell is what pandas can hold in a column read from a spreadsheet: a missing value
  (\<open>NaN\<close>, which is \<open>NaT\<close> in a date column), a number, a text, or a timestamp. A timestamp
  is a point in time with its time of day, counted in nanoseconds since the epoch as
  pandas stores it; the order of the integers is the chronological order. Latitude and
  longitude are floating-point numbers in the program; nothing in the program computes
  with them, so they are modelled as reals.

  The dtype of a column decides what pandas does when the column is compared with a text:
  \<open>Datetime64\<close> is a column of timestamps and missing dates, \<open>Float64\<close> a numeric column
  (an integer column behaves alike here; a column with no value at all in a non-empty sheet
  is numeric), \<open>Object\<close> a column of texts or of cells of mixed kinds. Selecting rows keeps
  the dtype of every column.
\<close>

type_synonym timestamp = int

datatype cell = NaN | Num real | Str string | Timestamp timestamp

datatype dtype = Datetime64 | Float64 | Object

record frame =
  columns :: "string list"
  dtypes :: "(string \<times> dtype) list"
  rows :: "cell list list"

datatype error =
  FileNotFoundError string | KeyError string | ValueError string | TypeError string

definition dtype_of :: "frame \<Rightarrow> string \<Rightarrow> dtype" where
  "dtype_of df c = (case map_of (dtypes df) c of Some t \<Rightarrow> t | None \<Rightarrow> Object)"

text \<open>\<^verbatim>\<open>row[col]\<close>: the cell of a row under a column name. A frame is rectangular, so a row
  that is shorter than the header reads as missing there.\<close>

definition getitem :: "string list \<Rightarrow> cell list \<Rightarrow> string \<Rightarrow> cell" where
  "getitem cols r c = (case map_of (zip cols r) c of Some v \<Rightarrow> v | None \<Rightarrow> NaN)"

text \<open>\<^verbatim>\<open>df[col]\<close>: the column as a series, or \<^verbatim>\<open>KeyError\<close> when no column has that name.\<close>

definition series :: "frame \<Rightarrow> string \<Rightarrow> error + cell list" where
  "series df c =
     (if c \<in> set (columns df) then Inr (map (\<lambda>r. getitem (columns df) r c) (rows df))
      else Inl (KeyError c))"

text \<open>\<^verbatim>\<open>Series.isin(values)\<close>: elementwise membership (a missing value matches a missing
  value in \<^verbatim>\<open>values\<close>).\<close>

definition isin :: "cell list \<Rightarrow> cell list \<Rightarrow> bool list" where
  "isin s vals = map (\<lambda>v. v \<in> set vals) s"

text \<open>\<^verbatim>\<open>series >= bound\<close> and \<^verbatim>\<open>series <= bound\<close>, the bound being the text the date picker
  hands to the callback. What pandas does depends on the dtype of the series:
  \<^item> a \<open>Datetime64\<close> series: the text is read as a timestamp (a text naming a day reads as
    the midnight that begins it) and compared chronologically, a missing date comparing
    false; a text that is no date raises \<^verbatim>\<open>TypeError\<close>. How pandas reads a text as a
    timestamp is outside this repository and is the parameter \<open>to_datetime\<close>;
  \<^item> a \<open>Float64\<close> series: the comparison with a text raises \<^verbatim>\<open>TypeError\<close>, whatever the
    cells are;
  \<^item> an \<open>Object\<close> series: the cells are compared one by one as Python compares them: a
    missing cell compares false, a text is compared with the bound as strings (by code
    points, lexicographically), a number or a timestamp raises \<^verbatim>\<open>TypeError\<close>.\<close>

definition not_comparable :: "cell \<Rightarrow> bool" where
  "not_comparable v = (case v of Num x \<Rightarrow> True | Timestamp t \<Rightarrow> True | _ \<Rightarrow> False)"

definition series_ge ::
  "(string \<Rightarrow> timestamp option) \<Rightarrow> dtype \<Rightarrow> cell list \<Rightarrow> string \<Rightarrow> error + bool list"
where
  "series_ge to_datetime dt s bound =
     (case dt of
        Datetime64 \<Rightarrow>
          (case to_datetime bound of
             None \<Rightarrow> Inl (TypeError ''>='')
           | Some b \<Rightarrow> Inr (map (\<lambda>v. case v of Timestamp t \<Rightarrow> b \<le> t | _ \<Rightarrow> False) s))
      | Float64 \<Rightarrow> Inl (TypeError ''>='')
      | Object \<Rightarrow>
          (if list_ex not_comparable s then Inl (TypeError ''>='')
           else Inr (map (\<lambda>v. case v of Str x \<Rightarrow> bound \<le> x | _ \<Rightarrow> False) s)))"

definition series_le ::
  "(string \<Rightarrow> timestamp option) \<Rightarrow> dtype \<Rightarrow> cell list \<Rightarrow> string \<Rightarrow> error + bool list"
where
  "series_le to_datetime dt s bound =
     (case dt of
        Datetime64 \<Rightarrow>
          (case to_datetime bound of
             None \<Rightarrow> Inl (TypeError ''<='')
           | Some b \<Rightarrow> Inr (map (\<lambda>v. case v of Timestamp t \<Rightarrow> t \<le> b | _ \<Rightarrow> False) s))
      | Float64 \<Rightarrow> Inl (TypeError ''<='')
      | Object \<Rightarrow>
          (if list_ex not_comparable s then Inl (TypeError ''<='')
           else Inr (map (\<lambda>v. case v of Str x \<Rightarrow> x \<le> bound | _ \<Rightarrow> False) s)))"

text \<open>\<^verbatim>\<open>mask1 & mask2\<close>: elementwise conjunction of two boolean series.\<close>

definition mask_and :: "bool list \<Rightarrow> bool list \<Rightarrow> bool list" where
  "mask_and m1 m2 = map (\<lambda>(a, b). a \<and> b) (zip m1 m2)"

text \<open>\<^verbatim>\<open>df[mask]\<close>: boolean indexing keeps the rows whose mask entry is true, in order.\<close>

definition loc_mask :: "frame \<Rightarrow> bool list \<Rightarrow> frame" where
  "loc_mask df m = df\<lparr>rows := map fst (filter snd (zip (rows df) m))\<rparr>"

text \<open>Python truthiness of a dropdown value (\<^verbatim>\<open>None\<close> and the empty list are false) and of
  a bound of the date picker (\<^verbatim>\<open>None\<close> and the empty text are false).\<close>

definition truthy :: "cell list option \<Rightarrow> bool" where
  "truthy v = (case v of None \<Rightarrow> False | Some xs \<Rightarrow> xs \<noteq> [])"

definition truthy_text :: "string option \<Rightarrow> bool" where
  "truthy_text v = (case v of None \<Rightarrow> False | Some s \<Rightarrow> s \<noteq> [])"

section \<open>The filter block of \<^verbatim>\<open>update_views\<close> (lines 159 to 166)\<close>

text \<open>The three \<^verbatim>\<open>if\<close> statements, in the order of the source.\<close>

definition update_views_filter ::
  "(string \<Rightarrow> timestamp option) \<Rightarrow> frame \<Rightarrow> cell list option \<Rightarrow> cell list option \<Rightarrow>
   string option \<Rightarrow> string option \<Rightarrow> error + frame"
where
  "update_views_filter to_datetime master_df selected_srp_nums selected_scientific_names
       start_date end_date =
    (case (if truthy selected_srp_nums
           then (case series master_df ''SRP_Num'' of
                   Inl e \<Rightarrow> Inl e
                 | Inr s \<Rightarrow> Inr (loc_mask master_df (isin s (the selected_srp_nums))))
           else Inr master_df) of
       Inl e \<Rightarrow> Inl e
     | Inr df1 \<Rightarrow>
    (case (if truthy selected_scientific_names
           then (case series df1 ''Scientific_Name'' of
                   Inl e \<Rightarrow> Inl e
                 | Inr s \<Rightarrow> Inr (loc_mask df1 (isin s (the selected_scientific_names))))
           else Inr df1) of
       Inl e \<Rightarrow> Inl e
     | Inr df2 \<Rightarrow>
    (if truthy_text start_date \<and> truthy_text end_date
     then (case series df2 ''Observation_Date'' of
             Inl e \<Rightarrow> Inl e
           | Inr s \<Rightarrow>
          (case series_ge to_datetime (dtype_of df2 ''Observation_Date'') s (the start_date) of
             Inl e \<Rightarrow> Inl e
           | Inr m1 \<Rightarrow>
          (case series_le to_datetime (dtype_of df2 ''Observation_Date'') s (the end_date) of
             Inl e \<Rightarrow> Inl e
           | Inr m2 \<Rightarrow> Inr (loc_mask df2 (mask_and m1 m2)))))
     else Inr df2)))"

section \<open>The projections of \<^verbatim>\<open>update_views\<close> (lines 168 to 202)\<close>

text \<open>\<^verbatim>\<open>px.scatter_mapbox(df, lat=..., lon=..., hover_data=[...], zoom=..., mapbox_style=...)\<close>
  raises \<^verbatim>\<open>ValueError\<close> when one of the named columns is not a column of the frame; otherwise
  the figure holds one entry per row of the frame, whatever its cells are: its latitude
  cell, its longitude cell and the cells of the hover columns.\<close>

record figure =
  fig_lat :: "cell list"
  fig_lon :: "cell list"
  fig_hover_data :: "string list"
  fig_customdata :: "cell list list"
  fig_zoom :: nat
  fig_mapbox_style :: string

definition scatter_mapbox ::
  "frame \<Rightarrow> string \<Rightarrow> string \<Rightarrow> string list \<Rightarrow> nat \<Rightarrow> string \<Rightarrow> error + figure"
where
  "scatter_mapbox df lat lon hover_data zoom style =
     (case filter (\<lambda>c. c \<notin> set (columns df)) (lat # lon # hover_data) of
        c # _ \<Rightarrow> Inl (ValueError c)
      | [] \<Rightarrow>
          Inr \<lparr>fig_lat = map (\<lambda>r. getitem (columns df) r lat) (rows df),
               fig_lon = map (\<lambda>r. getitem (columns df) r lon) (rows df),
               fig_hover_data = hover_data,
               fig_customdata = map (\<lambda>r. map (getitem (columns df) r) hover_data) (rows df),
               fig_zoom = zoom,
               fig_mapbox_style = style\<rparr>)"

text \<open>The table: a header cell per column and, per row, \<^verbatim>\<open>row[col]\<close> for every column.\<close>

record html_table =
  thead :: "string list"
  tbody :: "cell list list"

definition make_table :: "frame \<Rightarrow> html_table" where
  "make_table df =
     \<lparr>thead = columns df,
      tbody = map (\<lambda>r. map (getitem (columns df) r) (columns df)) (rows df)\<rparr>"

text \<open>\<^verbatim>\<open>Series.unique()\<close>: the values in order of first appearance, each once (all missing
  values count as one value).\<close>

fun uniques :: "cell list \<Rightarrow> cell list \<Rightarrow> cell list" where
  "uniques seen [] = seen"
| "uniques seen (x # xs) = uniques (if x \<in> set seen then seen else seen @ [x]) xs"

definition unique :: "cell list \<Rightarrow> cell list" where
  "unique s = uniques [] s"

text \<open>\<^verbatim>\<open>f"Record Count: {len(filtered_df)}"\<close>: the decimal digits of a natural number.\<close>

fun str_nat :: "nat \<Rightarrow> string" where
  "str_nat n =
     (if n < 10 then [char_of (48 + n)] else str_nat (n div 10) @ [char_of (48 + n mod 10)])"

record views =
  fig_map :: figure
  table :: html_table
  record_count :: string
  table_record_count :: string
  stats_table :: "(string \<times> nat) list"

definition update_views ::
  "(string \<Rightarrow> timestamp option) \<Rightarrow> frame \<Rightarrow> cell list option \<Rightarrow> cell list option \<Rightarrow>
   string option \<Rightarrow> string option \<Rightarrow> error + views"
where
  "update_views to_datetime master_df selected_srp_nums selected_scientific_names
       start_date end_date =
    (case update_views_filter to_datetime master_df selected_srp_nums selected_scientific_names
            start_date end_date of
       Inl e \<Rightarrow> Inl e
     | Inr filtered_df \<Rightarrow>
    (case scatter_mapbox filtered_df
            ''Latitude_or_transect_start_latitude'' ''Longitude_or_transect_start_longitude''
            [''SRP_ID'', ''Scientific_Name'', ''Common_Name'', ''County'', ''SRP_Num'']
            5 ''open-street-map'' of
       Inl e \<Rightarrow> Inl e
     | Inr fig \<Rightarrow>
    (let tbl = make_table filtered_df;
         cnt = ''Record Count: '' @ str_nat (length (rows filtered_df))
     in
    (case series filtered_df ''SRP_Num'' of
       Inl e \<Rightarrow> Inl e
     | Inr srp \<Rightarrow>
    (case series filtered_df ''Scientific_Name'' of
       Inl e \<Rightarrow> Inl e
     | Inr sci \<Rightarrow>
         Inr \<lparr>fig_map = fig, table = tbl, record_count = cnt, table_record_count = cnt,
              stats_table = [(''SRP Numbers'', length (unique srp)),
                             (''Scientific Names'', length (unique sci))]\<rparr>)))))"

section \<open>The export callback \<^verbatim>\<open>download_data\<close> (lines 213 to 228)\<close>

text \<open>The filter block of the export callback, lines 218 to 225, translated on its own.\<close>

definition download_data_filter ::
  "(string \<Rightarrow> timestamp option) \<Rightarrow> frame \<Rightarrow> cell list option \<Rightarrow> cell list option \<Rightarrow>
   string option \<Rightarrow> string option \<Rightarrow> error + frame"
where
  "download_data_filter to_datetime master_df selected_srp_nums selected_scientific_names
       start_date end_date =
    (case (if truthy selected_srp_nums
           then (case series master_df ''SRP_Num'' of
                   Inl e \<Rightarrow> Inl e
                 | Inr s \<Rightarrow> Inr (loc_mask master_df (isin s (the selected_srp_nums))))
           else Inr master_df) of
       Inl e \<Rightarrow> Inl e
     | Inr df1 \<Rightarrow>
    (case (if truthy selected_scientific_names
           then (case series df1 ''Scientific_Name'' of
                   Inl e \<Rightarrow> Inl e
                 | Inr s \<Rightarrow> Inr (loc_mask df1 (isin s (the selected_scientific_names))))
           else Inr df1) of
       Inl e \<Rightarrow> Inl e
     | Inr df2 \<Rightarrow>
    (if truthy_text start_date \<and> truthy_text end_date
     then (case series df2 ''Observation_Date'' of
             Inl e \<Rightarrow> Inl e
           | Inr s \<Rightarrow>
          (case series_ge to_datetime (dtype_of df2 ''Observation_Date'') s (the start_date) of
             Inl e \<Rightarrow> Inl e
           | Inr m1 \<Rightarrow>
          (case series_le to_datetime (dtype_of df2 ''Observation_Date'') s (the end_date) of
             Inl e \<Rightarrow> Inl e
           | Inr m2 \<Rightarrow> Inr (loc_mask df2 (mask_and m1 m2)))))
     else Inr df2)))"

text \<open>\<^verbatim>\<open>DataFrame.to_csv(index=False)\<close> hands the header of column names and then one record
  per row, the cells in column order and no row label, to Python's CSV writer with its
  standard settings and the line feed as line terminator: the fields of a record are
  joined by commas; a field holding a comma, a double quote or a line feed is put in double
  quotes with its own quotes doubled; a record that is one empty field is written as a
  pair of quotes; every record ends with a line feed. How pandas prints a cell is outside
  this repository and is the parameter \<open>fmt\<close>.\<close>

definition to_csv_records :: "(cell \<Rightarrow> string) \<Rightarrow> frame \<Rightarrow> string list list" where
  "to_csv_records fmt df =
     columns df # map (\<lambda>r. map (\<lambda>c. fmt (getitem (columns df) r c)) (columns df)) (rows df)"

definition special :: "char \<Rightarrow> bool" where
  "special c = (c = CHR '','' \<or> c = CHR 0x22 \<or> c = CHR 0x0A)"

definition escape :: "string \<Rightarrow> string" where
  "escape s = concat (map (\<lambda>c. if c = CHR 0x22 then [c, c] else [c]) s)"

definition quote_field :: "string \<Rightarrow> string" where
  "quote_field s = (if list_ex special s then [CHR 0x22] @ escape s @ [CHR 0x22] else s)"

fun join :: "string \<Rightarrow> string list \<Rightarrow> string" where
  "join sep [] = []"
| "join sep [x] = x"
| "join sep (x # y # ys) = x @ sep @ join sep (y # ys)"

definition writerow :: "string list \<Rightarrow> string" where
  "writerow fs =
     (if fs = [[]] then [CHR 0x22, CHR 0x22] else join '','' (map quote_field fs)) @ [CHR 0x0A]"

definition csv_text :: "string list list \<Rightarrow> string" where
  "csv_text recs = concat (map writerow recs)"

definition to_csv :: "(cell \<Rightarrow> string) \<Rightarrow> frame \<Rightarrow> string" where
  "to_csv fmt df = csv_text (to_csv_records fmt df)"

text \<open>What the callback hands to the download component: \<^verbatim>\<open>dash.no_update\<close>, or the file
  built by \<^verbatim>\<open>dcc.send_data_frame\<close>. \<open>n_clicks\<close> is \<open>None\<close> until the button is clicked.\<close>

datatype download = no_update | send_data_frame (filename: string) (content: string)

definition download_data ::
  "(string \<Rightarrow> timestamp option) \<Rightarrow> (cell \<Rightarrow> string) \<Rightarrow> frame \<Rightarrow> nat option \<Rightarrow>
   cell list option \<Rightarrow> cell list option \<Rightarrow> string option \<Rightarrow> string option \<Rightarrow> error + download"
where
  "download_data to_datetime fmt master_df n_clicks selected_srp_nums selected_scientific_names
       start_date end_date =
    (if n_clicks = None \<or> n_clicks = Some 0 then Inr no_update
     else
      (case download_data_filter to_datetime master_df selected_srp_nums
              selected_scientific_names start_date end_date of
         Inl e \<Rightarrow> Inl e
       | Inr filtered_df \<Rightarrow>
           Inr (send_data_frame ''filtered_srp_data.csv'' (to_csv fmt filtered_df))))"

section \<open>Start of the program (lines 10 to 22 and the layout, lines 58 to 81)\<close>












record app =
  master_df :: frame
  geometry :: "(real option \<times> real option) list"
  srp_num_options :: "cell list"
  scientific_name_options :: "cell list"
  picker_start_date :: cell
  picker_end_date :: cell



section \<open>Reading a CSV text back\<close>

text \<open>The rows of a CSV file are what a CSV reader finds in its text. The reader below is
  the counterpart of the writer above and is used to state what an exported file holds: a
  comma outside quotes ends a field, a line feed outside quotes ends a record, a double
  quote at the start of a field opens a quoted field, in which a doubled quote stands for
  one quote and a single quote closes the quoting. It walks through the text keeping the
  field and the record read so far.\<close>

datatype mode = FieldStart | Unquoted | Quoted | QuoteSeen

fun csv_read :: "mode \<Rightarrow> string \<Rightarrow> string list \<Rightarrow> string \<Rightarrow> string list list" where
  "csv_read m f r [] = (if m = FieldStart \<and> r = [] then [] else [r @ [f]])"
| "csv_read m f r (c # cs) =
     (if m = Quoted then
        (if c = CHR 0x22 then csv_read QuoteSeen f r cs else csv_read Quoted (f @ [c]) r cs)
      else if c = CHR '','' then csv_read FieldStart [] (r @ [f]) cs
      else if c = CHR 0x0A then (r @ [f]) # csv_read FieldStart [] [] cs
      else if c = CHR 0x22 \<and> m = FieldStart then csv_read Quoted f r cs
      else if c = CHR 0x22 \<and> m = QuoteSeen then csv_read Quoted (f @ [c]) r cs
      else csv_read Unquoted (f @ [c]) r cs)"

definition read_csv :: "string \<Rightarrow> string list list" where
  "read_csv text = csv_read FieldStart [] [] text"

section \<open>The filter as the specification words it\<close>

text \<open>The specification describes the filter as three predicates on a record, each always
  true when its constraint is absent or empty, joined by conjunction. The date predicate
  is stated on timestamps: the bounds are the timestamps the two texts read as.\<close>

definition srp_ok :: "string list \<Rightarrow> cell list option \<Rightarrow> cell list \<Rightarrow> bool" where
  "srp_ok cols sel r =
     (case sel of None \<Rightarrow> True | Some xs \<Rightarrow> xs = [] \<or> getitem cols r ''SRP_Num'' \<in> set xs)"

definition name_ok :: "string list \<Rightarrow> cell list option \<Rightarrow> cell list \<Rightarrow> bool" where
  "name_ok cols sel r =
     (case sel of None \<Rightarrow> True | Some xs \<Rightarrow> xs = [] \<or> getitem cols r ''Scientific_Name'' \<in> set xs)"

definition in_range :: "timestamp option \<Rightarrow> timestamp option \<Rightarrow> cell \<Rightarrow> bool" where
  "in_range start end v =
     (case (start, end, v) of (Some a, Some b, Timestamp t) \<Rightarrow> a \<le> t \<and> t \<le> b | _ \<Rightarrow> False)"

definition date_ok ::
  "(string \<Rightarrow> timestamp option) \<Rightarrow> string list \<Rightarrow> string option \<Rightarrow> string option \<Rightarrow>
   cell list \<Rightarrow> bool"
where
  "date_ok to_datetime cols sd ed r =
     (if truthy_text sd \<and> truthy_text ed
      then in_range (to_datetime (the sd)) (to_datetime (the ed))
             (getitem cols r ''Observation_Date'')
      else True)"

definition survives ::
  "(string \<Rightarrow> timestamp option) \<Rightarrow> string list \<Rightarrow> cell list option \<Rightarrow> cell list option \<Rightarrow>
   string option \<Rightarrow> string option \<Rightarrow> cell list \<Rightarrow> bool"
where
  "survives to_datetime cols srp sci sd ed r =
     (srp_ok cols srp r \<and> name_ok cols sci r \<and> date_ok to_datetime cols sd ed r)"

section \<open>Vocabulary of the statements\<close>

text \<open>The three columns the filter block reads.\<close>

definition filter_columns :: "frame \<Rightarrow> bool" where
  "filter_columns df =
     (''SRP_Num'' \<in> set (columns df) \<and> ''Scientific_Name'' \<in> set (columns df) \<and>
      ''Observation_Date'' \<in> set (columns df))"

text \<open>The observation dates are a date column, as the data model of the specification has
  them; and, when both bounds are given, the date filter meets a date column and two
  texts that read as dates.\<close>

definition date_column :: "frame \<Rightarrow> bool" where
  "date_column df = (dtype_of df ''Observation_Date'' = Datetime64)"

definition date_filter_ok ::
  "(string \<Rightarrow> timestamp option) \<Rightarrow> frame \<Rightarrow> string option \<Rightarrow> string option \<Rightarrow> bool"
where
  "date_filter_ok to_datetime df sd ed =
     (truthy_text sd \<and> truthy_text ed \<longrightarrow>
        date_column df \<and> to_datetime (the sd) \<noteq> None \<and> to_datetime (the ed) \<noteq> None)"

text \<open>The columns that \<^verbatim>\<open>update_views\<close> reads: the three filter columns, the two
  coordinate columns and the hover columns of the map.\<close>

definition view_columns :: "frame \<Rightarrow> bool" where
  "view_columns df =
     list_all (\<lambda>c. c \<in> set (columns df))
       [''Latitude_or_transect_start_latitude'', ''Longitude_or_transect_start_longitude'',
        ''SRP_ID'', ''Scientific_Name'', ''Common_Name'', ''County'', ''SRP_Num'',
        ''Observation_Date'']"


text \<open>The tooltip fields of a map point.\<close>

definition tooltip_columns :: "string list" where
  "tooltip_columns = [''SRP_ID'', ''Scientific_Name'', ''Common_Name'', ''County'', ''SRP_Num'']"

section \<open>Sample data\<close>

text \<open>The records of the specification's scenario: A (SRP 100, Ursus americanus, 10 January
  2023) and B (SRP 200, Lynx rufus, 1 June 2023, here without a latitude); a record C
  without an observation date; and a record D observed on 31 January 2023 at 10:30. The
  timestamps are nanoseconds since 1 January 1970, 0:00.\<close>

definition sample_columns :: "string list" where
  "sample_columns =
     [''SRP_ID'', ''SRP_Num'', ''Scientific_Name'', ''Common_Name'', ''County'',
      ''Observation_Date'', ''Latitude_or_transect_start_latitude'',
      ''Longitude_or_transect_start_longitude'']"

definition sample_dtypes :: "(string \<times> dtype) list" where
  "sample_dtypes =
     [(''SRP_ID'', Object), (''SRP_Num'', Float64), (''Scientific_Name'', Object),
      (''Common_Name'', Object), (''County'', Object), (''Observation_Date'', Datetime64),
      (''Latitude_or_transect_start_latitude'', Float64),
      (''Longitude_or_transect_start_longitude'', Float64)]"

definition record_A :: "cell list" where
  "record_A = [Str ''a'', Num 100, Str ''Ursus americanus'', Str ''Black bear'', Str ''Brewster'',
               Timestamp 1673308800000000000, Num 30, Num (-103)]"

definition record_B :: "cell list" where
  "record_B = [Str ''b'', Num 200, Str ''Lynx rufus'', Str ''Bobcat'', Str ''Travis'',
               Timestamp 1685577600000000000, NaN, Num (-97)]"

definition record_C :: "cell list" where
  "record_C = [Str ''c'', Num 200, Str ''Lynx rufus'', Str ''Bobcat'', Str ''Hays'',
               NaN, Num 31, Num (-98)]"

definition record_D :: "cell list" where
  "record_D = [Str ''d'', Num 100, Str ''Ursus americanus'', Str ''Black bear'', Str ''Presidio'',
               Timestamp 1675161000000000000, Num 29, Num (-104)]"

definition sample_df :: frame where
  "sample_df = \<lparr>columns = sample_columns, dtypes = sample_dtypes,
                rows = [record_A, record_B, record_C, record_D]\<rparr>"

definition scenario_df :: frame where
  "scenario_df = \<lparr>columns = sample_columns, dtypes = sample_dtypes,
                  rows = [record_A, record_B]\<rparr>"

text \<open>A stand-in for the way pandas reads the texts of the date picker: the four days used
  below, each read as the midnight that begins it (1 January, 31 January, 1 June and 31
  December 2023); no other text is read as a date.\<close>

definition sample_to_datetime :: "string \<Rightarrow> timestamp option" where
  "sample_to_datetime s =
     map_of [(''2023-01-01'', 1672531200000000000), (''2023-01-31'', 1675123200000000000),
             (''2023-06-01'', 1685577600000000000), (''2023-12-31'', 1703980800000000000)] s"

text \<open>A spreadsheet in which no record has an observation date: pandas reads the empty
  column as a numeric column.\<close>

definition undated_df :: frame where
  "undated_df =
     \<lparr>columns = sample_columns,
      dtypes = [(''SRP_ID'', Object), (''SRP_Num'', Float64), (''Scientific_Name'', Object),
                (''Common_Name'', Object), (''County'', Object), (''Observation_Date'', Float64),
                (''Latitude_or_transect_start_latitude'', Float64),
                (''Longitude_or_transect_start_longitude'', Float64)],
      rows = [[Str ''u'', Num 100, Str ''Ursus americanus'', Str ''Black bear'', Str ''Brewster'',
               NaN, Num 30, Num (-103)]]\<rparr>"

text \<open>A spreadsheet whose observation dates were typed as texts: pandas reads the column as
  an object column of texts. The first record is dated in 2023 in another notation, the
  second has a text that names no date.\<close>

definition text_date_df :: frame where
  "text_date_df =
     \<lparr>columns = sample_columns,
      dtypes = [(''SRP_ID'', Object), (''SRP_Num'', Float64), (''Scientific_Name'', Object),
                (''Common_Name'', Object), (''County'', Object), (''Observation_Date'', Object),
                (''Latitude_or_transect_start_latitude'', Float64),
                (''Longitude_or_transect_start_longitude'', Float64)],
      rows = [[Str ''s'', Num 100, Str ''Ursus americanus'', Str ''Black bear'', Str ''Brewster'',
               Str ''6/1/2023'', Num 30, Num (-103)],
              [Str ''t'', Num 200, Str ''Lynx rufus'', Str ''Bobcat'', Str ''Travis'',
               Str ''2023-06-unknown'', Num 31, Num (-97)]]\<rparr>"


text \<open>Stand-ins for the way pandas prints a cell (a text as it is, anything else as an
  empty field) and for the way a text is read as a number (no text is).\<close>

definition sample_fmt :: "cell \<Rightarrow> string" where
  "sample_fmt v = (case v of Str s \<Rightarrow> s | _ \<Rightarrow> [])"




section \<open>Facts about the frame operations\<close>

lemma loc_mask_map: "loc_mask df (map P (rows df)) = df\<lparr>rows := filter P (rows df)\<rparr>"
proof -
  have "map fst (filter snd (zip xs (map P xs))) = filter P xs" for xs :: "cell list list"
    by (induction xs) auto
  then show ?thesis by (simp add: loc_mask_def)
qed

lemma isin_series:
  "isin (map g rs) vals = map (\<lambda>r. g r \<in> set vals) rs"
  by (simp add: isin_def)

lemma dtype_of_rows [simp]: "dtype_of (df\<lparr>rows := rs\<rparr>) c = dtype_of df c"
  by (simp add: dtype_of_def)

lemma series_present:
  "c \<in> set (columns df) \<Longrightarrow> series df c = Inr (map (\<lambda>r. getitem (columns df) r c) (rows df))"
  by (simp add: series_def)

lemma isin_step:
  assumes "c \<in> set (columns df)"
  shows "(case series df c of Inl e \<Rightarrow> Inl e | Inr s \<Rightarrow> Inr (loc_mask df (isin s vals))) =
         Inr (df\<lparr>rows := filter (\<lambda>r. getitem (columns df) r c \<in> set vals) (rows df)\<rparr>)"
  using assms by (simp add: series_present isin_series loc_mask_map)

lemma datetime_masks:
  assumes "to_datetime a = Some ta" and "to_datetime b = Some tb"
  shows "series_ge to_datetime Datetime64 (map g rs) a =
           Inr (map (\<lambda>r. case g r of Timestamp t \<Rightarrow> ta \<le> t | _ \<Rightarrow> False) rs)"
    and "series_le to_datetime Datetime64 (map g rs) b =
           Inr (map (\<lambda>r. case g r of Timestamp t \<Rightarrow> t \<le> tb | _ \<Rightarrow> False) rs)"
  using assms by (simp_all add: series_ge_def series_le_def comp_def)

lemma mask_and_map:
  "mask_and (map p rs) (map q rs) = map (\<lambda>r. p r \<and> q r) rs"
  by (induction rs) (simp_all add: mask_and_def)

lemma date_step:
  assumes "c \<in> set (columns df)" and "dtype_of df c = Datetime64"
    and "to_datetime a = Some ta" and "to_datetime b = Some tb"
  shows "(case series df c of
            Inl e \<Rightarrow> Inl e
          | Inr s \<Rightarrow>
         (case series_ge to_datetime (dtype_of df c) s a of
            Inl e \<Rightarrow> Inl e
          | Inr m1 \<Rightarrow>
         (case series_le to_datetime (dtype_of df c) s b of
            Inl e \<Rightarrow> Inl e
          | Inr m2 \<Rightarrow> Inr (loc_mask df (mask_and m1 m2))))) =
         Inr (df\<lparr>rows := filter (\<lambda>r. in_range (Some ta) (Some tb) (getitem (columns df) r c))
                (rows df)\<rparr>)"
proof -
  have "(\<lambda>r. (case getitem (columns df) r c of Timestamp t \<Rightarrow> ta \<le> t | _ \<Rightarrow> False) \<and>
             (case getitem (columns df) r c of Timestamp t \<Rightarrow> t \<le> tb | _ \<Rightarrow> False)) =
        (\<lambda>r. in_range (Some ta) (Some tb) (getitem (columns df) r c))"
    by (auto simp: fun_eq_iff in_range_def split: cell.splits)
  then show ?thesis
    using assms
    by (simp add: series_present datetime_masks[OF assms(3,4)] mask_and_map loc_mask_map)
qed

lemma srp_block:
  assumes "''SRP_Num'' \<in> set (columns df)"
  shows "(if truthy sel
           then (case series df ''SRP_Num'' of
                   Inl e \<Rightarrow> Inl e
                 | Inr s \<Rightarrow> Inr (loc_mask df (isin s (the sel))))
           else Inr df) = Inr (df\<lparr>rows := filter (srp_ok (columns df) sel) (rows df)\<rparr>)"
proof (cases "truthy sel")
  case True
  then obtain xs where "sel = Some xs" "xs \<noteq> []"
    by (auto simp: truthy_def split: option.splits)
  moreover from this have
    "srp_ok (columns df) sel = (\<lambda>r. getitem (columns df) r ''SRP_Num'' \<in> set xs)"
    by (simp add: srp_ok_def fun_eq_iff)
  ultimately show ?thesis using assms True
    by (simp add: isin_step)
next
  case False
  then have "srp_ok (columns df) sel = (\<lambda>r. True)"
    by (auto simp: truthy_def srp_ok_def split: option.splits)
  then show ?thesis using False by simp
qed

lemma name_block:
  assumes "''Scientific_Name'' \<in> set (columns df)"
  shows "(if truthy sel
           then (case series df ''Scientific_Name'' of
                   Inl e \<Rightarrow> Inl e
                 | Inr s \<Rightarrow> Inr (loc_mask df (isin s (the sel))))
           else Inr df) = Inr (df\<lparr>rows := filter (name_ok (columns df) sel) (rows df)\<rparr>)"
proof (cases "truthy sel")
  case True
  then obtain xs where "sel = Some xs" "xs \<noteq> []"
    by (auto simp: truthy_def split: option.splits)
  moreover from this have
    "name_ok (columns df) sel = (\<lambda>r. getitem (columns df) r ''Scientific_Name'' \<in> set xs)"
    by (simp add: name_ok_def fun_eq_iff)
  ultimately show ?thesis using assms True
    by (simp add: isin_step)
next
  case False
  then have "name_ok (columns df) sel = (\<lambda>r. True)"
    by (auto simp: truthy_def name_ok_def split: option.splits)
  then show ?thesis using False by simp
qed

lemma date_block:
  assumes "''Observation_Date'' \<in> set (columns df)" and "date_filter_ok to_datetime df sd ed"
  shows "(if truthy_text sd \<and> truthy_text ed
     then (case series df ''Observation_Date'' of
             Inl e \<Rightarrow> Inl e
           | Inr s \<Rightarrow>
          (case series_ge to_datetime (dtype_of df ''Observation_Date'') s (the sd) of
             Inl e \<Rightarrow> Inl e
           | Inr m1 \<Rightarrow>
          (case series_le to_datetime (dtype_of df ''Observation_Date'') s (the ed) of
             Inl e \<Rightarrow> Inl e
           | Inr m2 \<Rightarrow> Inr (loc_mask df (mask_and m1 m2)))))
     else Inr df) = Inr (df\<lparr>rows := filter (date_ok to_datetime (columns df) sd ed) (rows df)\<rparr>)"
proof (cases "truthy_text sd \<and> truthy_text ed")
  case True
  with assms(2) obtain ta tb where
    d: "dtype_of df ''Observation_Date'' = Datetime64"
    and a: "to_datetime (the sd) = Some ta" and b: "to_datetime (the ed) = Some tb"
    by (auto simp: date_filter_ok_def date_column_def)
  have "date_ok to_datetime (columns df) sd ed =
        (\<lambda>r. in_range (Some ta) (Some tb) (getitem (columns df) r ''Observation_Date''))"
    using True a b by (simp add: date_ok_def fun_eq_iff)
  then show ?thesis
    using True date_step[OF assms(1) d a b] by simp
next
  case False
  then have "date_ok to_datetime (columns df) sd ed = (\<lambda>r. True)"
    by (auto simp: date_ok_def fun_eq_iff)
  then show ?thesis using False by auto
qed

lemma date_filter_ok_rows [simp]:
  "date_filter_ok to_datetime (df\<lparr>rows := rs\<rparr>) sd ed = date_filter_ok to_datetime df sd ed"
  by (simp add: date_filter_ok_def date_column_def)

lemma update_views_filter_eq:
  assumes "filter_columns df" and "date_filter_ok to_datetime df sd ed"
  shows "update_views_filter to_datetime df srp sci sd ed =
         Inr (df\<lparr>rows := filter (survives to_datetime (columns df) srp sci sd ed) (rows df)\<rparr>)"
proof -
  let ?d1 = "df\<lparr>rows := filter (srp_ok (columns df) srp) (rows df)\<rparr>"
  let ?d2 = "?d1\<lparr>rows := filter (name_ok (columns ?d1) sci) (rows ?d1)\<rparr>"
  have c1: "''SRP_Num'' \<in> set (columns df)" and c2: "''Scientific_Name'' \<in> set (columns ?d1)"
    and c3: "''Observation_Date'' \<in> set (columns ?d2)"
    using assms(1) by (simp_all add: filter_columns_def)
  have ok: "date_filter_ok to_datetime ?d2 sd ed" using assms(2) by simp
  have "update_views_filter to_datetime df srp sci sd ed =
        Inr (?d2\<lparr>rows := filter (date_ok to_datetime (columns ?d2) sd ed) (rows ?d2)\<rparr>)"
    unfolding update_views_filter_def
    by (simp only: srp_block[OF c1] name_block[OF c2] date_block[OF c3 ok] sum.case)
  also have "\<dots> =
      Inr (df\<lparr>rows := filter (survives to_datetime (columns df) srp sci sd ed) (rows df)\<rparr>)"
  proof -
    have "filter (date_ok to_datetime (columns df) sd ed)
            (filter (name_ok (columns df) sci) (filter (srp_ok (columns df) srp) rs)) =
          filter (survives to_datetime (columns df) srp sci sd ed) rs" for rs
      by (induction rs) (auto simp: survives_def)
    then show ?thesis by (simp del: filter_filter)
  qed
  finally show ?thesis .
qed

lemma download_data_filter_eq:
  "download_data_filter to_datetime df srp sci sd ed =
   update_views_filter to_datetime df srp sci sd ed"
  by (simp add: download_data_filter_def update_views_filter_def)

lemma filter_keeps_columns:
  assumes "update_views_filter to_datetime df srp sci sd ed = Inr fdf"
  shows "columns fdf = columns df"
  using assms
  by (auto simp: update_views_filter_def loc_mask_def series_def
      split: if_splits sum.splits)

lemma length_uniques: "distinct seen \<Longrightarrow> length (uniques seen xs) = card (set seen \<union> set xs)"
proof (induction xs arbitrary: seen)
  case Nil
  then show ?case by (simp add: distinct_card)
next
  case (Cons x xs)
  show ?case
  proof (cases "x \<in> set seen")
    case True
    then have "set seen \<union> set (x # xs) = set seen \<union> set xs" by auto
    with Cons True show ?thesis by simp
  next
    case False
    then have "distinct (seen @ [x])" using Cons.prems by simp
    from Cons.IH[OF this] False show ?thesis by (simp add: Un_commute insert_commute)
  qed
qed

lemma length_unique: "length (unique xs) = card (set xs)"
  by (simp add: unique_def length_uniques)

lemma scatter_mapbox_present:
  assumes "list_all (\<lambda>c. c \<in> set (columns df)) (lat # lon # hover)"
  shows "scatter_mapbox df lat lon hover z s =
         Inr \<lparr>fig_lat = map (\<lambda>r. getitem (columns df) r lat) (rows df),
              fig_lon = map (\<lambda>r. getitem (columns df) r lon) (rows df),
              fig_hover_data = hover,
              fig_customdata = map (\<lambda>r. map (getitem (columns df) r) hover) (rows df),
              fig_zoom = z, fig_mapbox_style = s\<rparr>"
proof -
  have "filter (\<lambda>c. c \<notin> set (columns df)) (lat # lon # hover) = []"
    using assms by (auto simp: list_all_iff filter_empty_conv)
  then show ?thesis unfolding scatter_mapbox_def by simp
qed

lemma update_views_of_filter:
  assumes "view_columns df" and "update_views_filter to_datetime df srp sci sd ed = Inr fdf"
  shows "update_views to_datetime df srp sci sd ed =
    Inr \<lparr>fig_map =
           \<lparr>fig_lat = map (\<lambda>r. getitem (columns fdf) r ''Latitude_or_transect_start_latitude'')
                        (rows fdf),
            fig_lon = map (\<lambda>r. getitem (columns fdf) r ''Longitude_or_transect_start_longitude'')
                        (rows fdf),
            fig_hover_data = tooltip_columns,
            fig_customdata = map (\<lambda>r. map (getitem (columns fdf) r) tooltip_columns) (rows fdf),
            fig_zoom = 5, fig_mapbox_style = ''open-street-map''\<rparr>,
         table = make_table fdf,
         record_count = ''Record Count: '' @ str_nat (length (rows fdf)),
         table_record_count = ''Record Count: '' @ str_nat (length (rows fdf)),
         stats_table =
           [(''SRP Numbers'', card ((\<lambda>r. getitem (columns fdf) r ''SRP_Num'') ` set (rows fdf))),
            (''Scientific Names'',
               card ((\<lambda>r. getitem (columns fdf) r ''Scientific_Name'') ` set (rows fdf)))]\<rparr>"
proof -
  have c: "columns fdf = columns df" by (rule filter_keeps_columns[OF assms(2)])
  have m: "list_all (\<lambda>c. c \<in> set (columns fdf))
            (''Latitude_or_transect_start_latitude'' # ''Longitude_or_transect_start_longitude'' #
             [''SRP_ID'', ''Scientific_Name'', ''Common_Name'', ''County'', ''SRP_Num''])"
    using assms(1) by (simp add: view_columns_def c)
  have s1: "''SRP_Num'' \<in> set (columns fdf)" and s2: "''Scientific_Name'' \<in> set (columns fdf)"
    using assms(1) by (simp_all add: view_columns_def c)
  show ?thesis
    unfolding update_views_def assms(2) sum.case scatter_mapbox_present[OF m]
      series_present[OF s1] series_present[OF s2] length_unique Let_def
    by (simp add: tooltip_columns_def)
qed

lemma update_views_table:
  assumes "update_views to_datetime df srp sci sd ed = Inr v"
  shows "\<exists>fdf. update_views_filter to_datetime df srp sci sd ed = Inr fdf \<and>
               table v = make_table fdf"
  using assms
  by (auto simp: update_views_def Let_def split: sum.splits)

lemma getitem_normalised:
  assumes "c \<in> set cols"
  shows "getitem cols (map (getitem cols r) cols) c = getitem cols r c"
  using assms by (simp add: getitem_def[of cols "map (getitem cols r) cols"] map_of_zip_map)

lemma to_csv_records_table:
  "to_csv_records fmt \<lparr>columns = thead (make_table df), dtypes = ds,
      rows = tbody (make_table df)\<rparr> = to_csv_records fmt df"
  by (simp add: to_csv_records_def make_table_def getitem_normalised)

section \<open>Reading back what the CSV writer wrote\<close>

lemma csv_read_escaped:
  "csv_read Quoted f r (escape s @ CHR 0x22 # rest) = csv_read QuoteSeen (f @ s) r rest"
proof (induction s arbitrary: f)
  case Nil
  then show ?case by (simp add: escape_def)
next
  case (Cons c s)
  have e: "escape (c # s) = (if c = CHR 0x22 then [c, c] else [c]) @ escape s"
    by (simp add: escape_def)
  show ?case
  proof (cases "c = CHR 0x22")
    case True
    then show ?thesis unfolding e using Cons.IH[of "f @ [c]"] by simp
  next
    case False
    then show ?thesis unfolding e using Cons.IH[of "f @ [c]"] by simp
  qed
qed

lemma csv_read_plain:
  assumes "\<not> list_ex special s" and "m \<noteq> Quoted"
  shows "csv_read m f r (s @ rest) = csv_read (if s = [] then m else Unquoted) (f @ s) r rest"
  using assms
proof (induction s arbitrary: m f)
  case Nil
  then show ?case by simp
next
  case (Cons c s)
  from Cons.prems(1) have nc: "\<not> special c" and s: "\<not> list_ex special s"
    by simp_all
  from nc have c: "c \<noteq> CHR '',''" "c \<noteq> CHR 0x22" "c \<noteq> CHR 0x0A"
    by (simp_all add: special_def)
  have "csv_read m f r ((c # s) @ rest) = csv_read Unquoted (f @ [c]) r (s @ rest)"
    using c Cons.prems(2) by simp
  also have "\<dots> = csv_read (if s = [] then Unquoted else Unquoted) ((f @ [c]) @ s) r rest"
    by (rule Cons.IH[OF s]) simp
  finally show ?case by simp
qed

lemma csv_read_field:
  "\<exists>m. m \<noteq> Quoted \<and>
       csv_read FieldStart [] r (quote_field s @ rest) = csv_read m s r rest"
proof (cases "list_ex special s")
  case True
  then have "csv_read FieldStart [] r (quote_field s @ rest) = csv_read QuoteSeen s r rest"
    using csv_read_escaped[of "[]" r s rest] by (simp add: quote_field_def)
  then show ?thesis by blast
next
  case False
  then have "csv_read FieldStart [] r (quote_field s @ rest) =
             csv_read (if s = [] then FieldStart else Unquoted) s r rest"
    using csv_read_plain[of s FieldStart "[]" r rest] by (simp add: quote_field_def)
  then show ?thesis by (metis mode.distinct(3) mode.distinct(7))
qed

lemma csv_read_comma:
  "m \<noteq> Quoted \<Longrightarrow> csv_read m f r (CHR '','' # rest) = csv_read FieldStart [] (r @ [f]) rest"
  by simp

lemma csv_read_newline:
  "m \<noteq> Quoted \<Longrightarrow> csv_read m f r (CHR 0x0A # rest) = (r @ [f]) # csv_read FieldStart [] [] rest"
  by simp

lemma join_cons: "fs \<noteq> [] \<Longrightarrow> join sep (f # fs) = f @ sep @ join sep fs"
  by (cases fs) simp_all

lemma csv_read_fields:
  assumes "fs \<noteq> []"
  shows "csv_read FieldStart [] r (join '','' (map quote_field fs) @ CHR 0x0A # rest) =
         (r @ fs) # csv_read FieldStart [] [] rest"
  using assms
proof (induction fs arbitrary: r rule: list_nonempty_induct)
  case (single f)
  obtain m where m: "m \<noteq> Quoted"
    and "csv_read FieldStart [] r (quote_field f @ CHR 0x0A # rest) =
         csv_read m f r (CHR 0x0A # rest)"
    using csv_read_field[of r f "CHR 0x0A # rest"] by blast
  then show ?case by (simp add: csv_read_newline[OF m])
next
  case (cons f fs)
  obtain m where m: "m \<noteq> Quoted"
    and "csv_read FieldStart [] r
           (quote_field f @ CHR '','' # join '','' (map quote_field fs) @ CHR 0x0A # rest) =
         csv_read m f r (CHR '','' # join '','' (map quote_field fs) @ CHR 0x0A # rest)"
    using csv_read_field[of r f "CHR '','' # join '','' (map quote_field fs) @ CHR 0x0A # rest"]
    by blast
  then show ?case
    using cons.hyps cons.IH[of "r @ [f]"]
    by (simp add: join_cons csv_read_comma[OF m])
qed

lemma csv_read_writerow:
  assumes "fs \<noteq> []"
  shows "csv_read FieldStart [] [] (writerow fs @ rest) = fs # csv_read FieldStart [] [] rest"
proof (cases "fs = [[]]")
  case True
  then show ?thesis by (simp add: writerow_def)
next
  case False
  then show ?thesis
    using csv_read_fields[OF assms, of "[]" rest] by (simp add: writerow_def)
qed

lemma read_csv_text:
  assumes "\<forall>fs \<in> set recs. fs \<noteq> []"
  shows "read_csv (csv_text recs) = recs"
  using assms unfolding read_csv_def csv_text_def
proof (induction recs)
  case Nil
  then show ?case by simp
next
  case (Cons fs recs)
  then show ?case by (simp add: csv_read_writerow)
qed

lemma read_to_csv:
  assumes "columns df \<noteq> []"
  shows "read_csv (to_csv fmt df) = to_csv_records fmt df"
proof -
  have "\<forall>fs \<in> set (to_csv_records fmt df). fs \<noteq> []"
    using assms by (auto simp: to_csv_records_def)
  then show ?thesis unfolding to_csv_def by (rule read_csv_text)
qed


section \<open>Evaluating the sample data\<close>

lemmas sample_defs = sample_df_def scenario_df_def sample_columns_def sample_dtypes_def
  record_A_def record_B_def record_C_def record_D_def

lemma sample_view_columns: "view_columns sample_df" "view_columns scenario_df"
  by (simp_all add: view_columns_def sample_defs)

lemma sample_filter_columns: "filter_columns sample_df" "filter_columns scenario_df"
  by (simp_all add: filter_columns_def sample_defs)

lemma sample_date_filter_ok:
  "date_filter_ok sample_to_datetime sample_df (Some ''2023-01-01'') (Some ''2023-01-31'')"
  "date_filter_ok sample_to_datetime sample_df (Some ''2023-01-01'') (Some ''2023-06-01'')"
  "date_filter_ok to_datetime df None ed"
  "date_filter_ok to_datetime df sd None"
  by (simp_all add: date_filter_ok_def date_column_def dtype_of_def truthy_text_def
      sample_to_datetime_def sample_defs)

lemma sample_filter_unconstrained:
  "update_views_filter to_datetime df None None None None = Inr df"
  by (simp add: update_views_filter_def truthy_def truthy_text_def)

section \<open>The filter pipeline\<close>




text \<open>Claim C2. With every constraint empty or absent (each selection \<^verbatim>\<open>None\<close> or the empty
  list, each date bound \<^verbatim>\<open>None\<close> or the empty text) the filter block returns the input frame
  unchanged, in order and content, whatever the frame is.\<close>

theorem filter_identity:
  assumes "\<not> truthy srp" and "\<not> truthy sci" and "\<not> truthy_text sd" and "\<not> truthy_text ed"
  shows "update_views_filter to_datetime df srp sci sd ed = Inr df"
  using assms by (simp add: update_views_filter_def)

theorem filter_identity_witness:
  "\<not> truthy None \<and> \<not> truthy (Some []) \<and> \<not> truthy_text None \<and> \<not> truthy_text (Some []) \<and>
   update_views_filter sample_to_datetime sample_df None (Some []) None None = Inr sample_df \<and>
   update_views_filter sample_to_datetime undated_df (Some []) None (Some []) None =
     Inr undated_df"
proof -
  have a: "\<not> truthy None" and b: "\<not> truthy (Some [])" by (simp_all add: truthy_def)
  have c: "\<not> truthy_text None" and d: "\<not> truthy_text (Some [])"
    by (simp_all add: truthy_text_def)
  from filter_identity[OF a b c c, of sample_to_datetime sample_df]
    filter_identity[OF b a d c, of sample_to_datetime undated_df] a b c d
  show ?thesis by simp
qed

text \<open>Claim C3 (as stated, refuted). The claim has the comparison chronological and not a
  comparison of strings. On a spreadsheet whose dates were typed as texts the column is
  compared with the bounds as strings: with the bounds 1 January and 31 December 2023 the
  record dated \<^verbatim>\<open>6/1/2023\<close> is dropped and the record whose date text is
  \<^verbatim>\<open>2023-06-unknown\<close>, which names no date, is kept.\<close>

theorem date_predicate_text_column_counterexample:
  "update_views_filter sample_to_datetime text_date_df None None
       (Some ''2023-01-01'') (Some ''2023-12-31'') =
     Inr (text_date_df\<lparr>rows :=
        [[Str ''t'', Num 200, Str ''Lynx rufus'', Str ''Bobcat'', Str ''Travis'',
          Str ''2023-06-unknown'', Num 31, Num (-97)]]\<rparr>)"
  by (simp add: text_date_df_def sample_columns_def update_views_filter_def
      truthy_def truthy_text_def series_def dtype_of_def series_ge_def series_le_def
      not_comparable_def getitem_def mask_and_def loc_mask_def)

text \<open>Claim C3 (amended). The date predicate is applied exactly when both bounds are
  given (neither \<^verbatim>\<open>None\<close> nor empty). When it is applied to a date column, with bounds that
  read as dates, a record survives it exactly when its observation date is a timestamp \<open>t\<close>
  with \<open>start \<le> t \<le> end\<close> in the chronological order of timestamps, so that a record
  without a date is excluded. When a bound is absent the date column is not consulted
  and a record without a date is kept.\<close>

theorem date_predicate_policy:
  assumes "filter_columns df" and "date_filter_ok to_datetime df sd ed"
  shows "update_views_filter to_datetime df srp sci sd ed =
     Inr (df\<lparr>rows := filter
       (\<lambda>r. srp_ok (columns df) srp r \<and> name_ok (columns df) sci r \<and>
            (truthy_text sd \<and> truthy_text ed \<longrightarrow>
               (\<exists>t a b. getitem (columns df) r ''Observation_Date'' = Timestamp t \<and>
                    to_datetime (the sd) = Some a \<and> to_datetime (the ed) = Some b \<and>
                    a \<le> t \<and> t \<le> b)))
       (rows df)\<rparr>)"
proof -
  have "survives to_datetime (columns df) srp sci sd ed =
     (\<lambda>r. srp_ok (columns df) srp r \<and> name_ok (columns df) sci r \<and>
            (truthy_text sd \<and> truthy_text ed \<longrightarrow>
               (\<exists>t a b. getitem (columns df) r ''Observation_Date'' = Timestamp t \<and>
                    to_datetime (the sd) = Some a \<and> to_datetime (the ed) = Some b \<and>
                    a \<le> t \<and> t \<le> b)))"
    by (auto simp: fun_eq_iff survives_def date_ok_def in_range_def
        split: option.splits cell.splits)
  with update_views_filter_eq[OF assms, of srp sci] show ?thesis by simp
qed

theorem date_predicate_policy_witness:
  "filter_columns sample_df \<and>
   date_filter_ok sample_to_datetime sample_df (Some ''2023-01-01'') (Some ''2023-06-01'') \<and>
   update_views_filter sample_to_datetime sample_df None None
       (Some ''2023-01-01'') (Some ''2023-06-01'') =
     Inr \<lparr>columns = sample_columns, dtypes = sample_dtypes,
          rows = [record_A, record_B, record_D]\<rparr> \<and>
   date_filter_ok sample_to_datetime sample_df (Some ''2023-01-01'') None \<and>
   update_views_filter sample_to_datetime sample_df None None (Some ''2023-01-01'') None =
     Inr \<lparr>columns = sample_columns, dtypes = sample_dtypes,
          rows = [record_A, record_B, record_C, record_D]\<rparr>"
proof -
  have h: "filter_columns sample_df" by (rule sample_filter_columns)
  have d1: "date_filter_ok sample_to_datetime sample_df (Some ''2023-01-01'') (Some ''2023-06-01'')"
    and d2: "date_filter_ok sample_to_datetime sample_df (Some ''2023-01-01'') None"
    by (rule sample_date_filter_ok)+
  show ?thesis
    using h d1 d2 date_predicate_policy[OF h d1, of None None]
      date_predicate_policy[OF h d2, of None None]
    by (simp add: sample_defs srp_ok_def name_ok_def getitem_def truthy_text_def
        sample_to_datetime_def)
qed

section \<open>The export callback against the view callback\<close>

text \<open>Claim C4. For every filter state the filter block of the export callback computes the
  same result (the same frame or the same error) as the filter block of the view callback;
  and whenever the view callback succeeds, a triggered export is the CSV of exactly the
  rows, in order, that the table of the view shows.\<close>

theorem export_filter_equals_view_filter:
  "download_data_filter to_datetime df srp sci sd ed =
     update_views_filter to_datetime df srp sci sd ed \<and>
   (\<forall>v. update_views to_datetime df srp sci sd ed = Inr v \<longrightarrow>
      download_data to_datetime fmt df (Some (Suc k)) srp sci sd ed =
        Inr (send_data_frame ''filtered_srp_data.csv''
               (to_csv fmt \<lparr>columns = thead (table v), dtypes = dtypes df,
                             rows = tbody (table v)\<rparr>)))"
proof (intro conjI allI impI)
  show "download_data_filter to_datetime df srp sci sd ed =
        update_views_filter to_datetime df srp sci sd ed"
    by (rule download_data_filter_eq)
next
  fix v assume "update_views to_datetime df srp sci sd ed = Inr v"
  from update_views_table[OF this] obtain fdf where
    f: "update_views_filter to_datetime df srp sci sd ed = Inr fdf"
    and t: "table v = make_table fdf"
    by blast
  show "download_data to_datetime fmt df (Some (Suc k)) srp sci sd ed =
        Inr (send_data_frame ''filtered_srp_data.csv''
               (to_csv fmt \<lparr>columns = thead (table v), dtypes = dtypes df,
                             rows = tbody (table v)\<rparr>))"
    by (simp add: download_data_def download_data_filter_eq f t to_csv_def to_csv_records_table)
qed

theorem export_filter_equals_view_filter_witness:
  "\<exists>v. update_views sample_to_datetime scenario_df (Some [Num 100]) None None None = Inr v \<and>
       tbody (table v) = [record_A] \<and>
       download_data sample_to_datetime sample_fmt scenario_df (Some 1) (Some [Num 100])
           None None None =
         Inr (send_data_frame ''filtered_srp_data.csv''
                (to_csv sample_fmt
                   \<lparr>columns = sample_columns, dtypes = sample_dtypes, rows = [record_A]\<rparr>))"
proof -
  have h: "view_columns scenario_df" by (rule sample_view_columns)
  have "update_views_filter sample_to_datetime scenario_df (Some [Num 100]) None None None =
        Inr (scenario_df\<lparr>rows := filter
               (survives sample_to_datetime (columns scenario_df) (Some [Num 100]) None None None)
               (rows scenario_df)\<rparr>)"
    by (rule update_views_filter_eq[OF sample_filter_columns(2) sample_date_filter_ok(3)])
  also have "\<dots> = Inr \<lparr>columns = sample_columns, dtypes = sample_dtypes, rows = [record_A]\<rparr>"
    by (simp add: survives_def srp_ok_def name_ok_def date_ok_def truthy_text_def sample_defs
        getitem_def)
  finally have f: "update_views_filter sample_to_datetime scenario_df (Some [Num 100]) None
      None None = Inr \<lparr>columns = sample_columns, dtypes = sample_dtypes, rows = [record_A]\<rparr>" .
  from update_views_of_filter[OF h f] obtain v where
    v: "update_views sample_to_datetime scenario_df (Some [Num 100]) None None None = Inr v"
    and t: "table v =
      make_table \<lparr>columns = sample_columns, dtypes = sample_dtypes, rows = [record_A]\<rparr>"
    by simp
  have b: "tbody (table v) = [record_A]" and c: "thead (table v) = sample_columns"
    by (simp_all add: t make_table_def sample_defs getitem_def)
  from export_filter_equals_view_filter[of sample_to_datetime scenario_df "Some [Num 100]"
      None None None sample_fmt 0] v
  have "download_data sample_to_datetime sample_fmt scenario_df (Some (Suc 0)) (Some [Num 100])
          None None None =
        Inr (send_data_frame ''filtered_srp_data.csv''
               (to_csv sample_fmt \<lparr>columns = thead (table v), dtypes = dtypes scenario_df,
                  rows = tbody (table v)\<rparr>))"
    by blast
  with v b c show ?thesis by (auto simp: scenario_df_def)
qed

text \<open>Claim C5. While the download button has not been clicked (\<open>n_clicks\<close> is \<^verbatim>\<open>None\<close>, or
  zero) the export callback returns \<^verbatim>\<open>no_update\<close> whatever the filter state and the frame
  are: no file is produced. A triggered export never returns \<^verbatim>\<open>no_update\<close>, so the outcome
  differs from an export of an empty collection.\<close>

theorem export_not_requested:
  "download_data to_datetime fmt df None srp sci sd ed = Inr no_update \<and>
   download_data to_datetime fmt df (Some 0) srp sci sd ed = Inr no_update \<and>
   download_data to_datetime fmt df (Some (Suc k)) srp sci sd ed \<noteq> Inr no_update"
  by (simp add: download_data_def split: sum.splits)

theorem export_not_requested_witness:
  "download_data sample_to_datetime sample_fmt sample_df None None None None None =
     Inr no_update \<and>
   download_data sample_to_datetime sample_fmt sample_df (Some 1) None None None None \<noteq>
     Inr no_update"
  using export_not_requested[of sample_to_datetime sample_fmt sample_df None None None None 0]
  by simp

text \<open>Claim C6. For every filtered collection (of a frame with at least one column) a
  triggered export is a file named \<^verbatim>\<open>filtered_srp_data.csv\<close> whose text, read back as
  comma-separated values, is: first the header of column names in the column order of the
  source, then one record per filtered row, its cells printed in column order. Every record
  has exactly one field per column (no index field), the number of records is the number
  of filtered rows plus one, and for an empty filtered collection the file is the header
  line alone.\<close>

theorem export_csv_shape:
  assumes "download_data_filter to_datetime df srp sci sd ed = Inr fdf" and "columns df \<noteq> []"
  shows "\<exists>text.
           download_data to_datetime fmt df (Some (Suc k)) srp sci sd ed =
             Inr (send_data_frame ''filtered_srp_data.csv'' text) \<and>
           read_csv text =
             columns df #
             map (\<lambda>r. map (\<lambda>c. fmt (getitem (columns df) r c)) (columns df)) (rows fdf) \<and>
           length (read_csv text) = length (rows fdf) + 1 \<and>
           hd (read_csv text) = columns df \<and>
           (\<forall>fields \<in> set (read_csv text). length fields = length (columns df)) \<and>
           (rows fdf = [] \<longrightarrow> read_csv text = [columns df] \<and> text = writerow (columns df))"
proof -
  have c: "columns fdf = columns df"
    using assms(1) filter_keeps_columns[of to_datetime df srp sci sd ed fdf]
    by (simp add: download_data_filter_eq)
  have r: "read_csv (to_csv fmt fdf) = to_csv_records fmt fdf"
    using assms(2) by (simp add: read_to_csv c)
  have d: "download_data to_datetime fmt df (Some (Suc k)) srp sci sd ed =
           Inr (send_data_frame ''filtered_srp_data.csv'' (to_csv fmt fdf))"
    using assms(1) by (simp add: download_data_def)
  have e: "rows fdf = [] \<longrightarrow> to_csv fmt fdf = writerow (columns df)"
    by (simp add: to_csv_def to_csv_records_def csv_text_def c)
  show ?thesis
    using d r e by (auto simp: to_csv_records_def c)
qed

theorem export_csv_shape_witness:
  "download_data_filter sample_to_datetime sample_df (Some [Num 999]) None None None =
     Inr \<lparr>columns = sample_columns, dtypes = sample_dtypes, rows = []\<rparr> \<and>
   columns sample_df \<noteq> [] \<and>
   download_data sample_to_datetime sample_fmt sample_df (Some 1) (Some [Num 999]) None None None =
     Inr (send_data_frame ''filtered_srp_data.csv''
       (''SRP_ID,SRP_Num,Scientific_Name,Common_Name,County,Observation_Date,Latitude_or_transect_start_latitude,Longitude_or_transect_start_longitude''
        @ [CHR 0x0A])) \<and>
   read_csv
       (''SRP_ID,SRP_Num,Scientific_Name,Common_Name,County,Observation_Date,Latitude_or_transect_start_latitude,Longitude_or_transect_start_longitude''
        @ [CHR 0x0A]) = [sample_columns] \<and>
   download_data_filter sample_to_datetime scenario_df None None None None = Inr scenario_df \<and>
   (\<exists>text. download_data sample_to_datetime sample_fmt scenario_df (Some 1) None None None None =
             Inr (send_data_frame ''filtered_srp_data.csv'' text) \<and>
           read_csv text =
             [sample_columns,
              [''a'', '''', ''Ursus americanus'', ''Black bear'', ''Brewster'', '''', '''', ''''],
              [''b'', '''', ''Lynx rufus'', ''Bobcat'', ''Travis'', '''', '''', '''']] \<and>
           length (read_csv text) = 3)"
proof -
  have "download_data_filter sample_to_datetime sample_df (Some [Num 999]) None None None =
        Inr (sample_df\<lparr>rows := filter
               (survives sample_to_datetime (columns sample_df) (Some [Num 999]) None None None)
               (rows sample_df)\<rparr>)"
    by (simp only: download_data_filter_eq
        update_views_filter_eq[OF sample_filter_columns(1) sample_date_filter_ok(3)])
  also have "\<dots> = Inr \<lparr>columns = sample_columns, dtypes = sample_dtypes, rows = []\<rparr>"
    by (simp add: survives_def srp_ok_def sample_defs getitem_def)
  finally have e: "download_data_filter sample_to_datetime sample_df (Some [Num 999]) None None
      None = Inr \<lparr>columns = sample_columns, dtypes = sample_dtypes, rows = []\<rparr>" .
  have n: "columns sample_df \<noteq> []" and n': "columns scenario_df \<noteq> []"
    by (simp_all add: sample_defs)
  have s: "download_data_filter sample_to_datetime scenario_df None None None None =
           Inr scenario_df"
    by (simp add: download_data_filter_eq sample_filter_unconstrained)
  from export_csv_shape[OF e n, of sample_fmt 0] obtain body where
    t: "download_data sample_to_datetime sample_fmt sample_df (Some (Suc 0)) (Some [Num 999])
          None None None = Inr (send_data_frame ''filtered_srp_data.csv'' body)"
    and r: "read_csv body = [columns sample_df]" and w: "body = writerow (columns sample_df)"
    by auto
  have w': "writerow (columns sample_df) =
      ''SRP_ID,SRP_Num,Scientific_Name,Common_Name,County,Observation_Date,Latitude_or_transect_start_latitude,Longitude_or_transect_start_longitude''
        @ [CHR 0x0A]"
    by (simp add: sample_defs writerow_def quote_field_def special_def)
  from export_csv_shape[OF s n', of sample_fmt 0] obtain text2 where
    t2: "download_data sample_to_datetime sample_fmt scenario_df (Some (Suc 0)) None None None
           None = Inr (send_data_frame ''filtered_srp_data.csv'' text2)"
    and r2: "read_csv text2 =
             columns scenario_df #
             map (\<lambda>r. map (\<lambda>c. sample_fmt (getitem (columns scenario_df) r c))
                    (columns scenario_df)) (rows scenario_df)"
    and l2: "length (read_csv text2) = length (rows scenario_df) + 1"
    by auto
  have r2': "read_csv text2 =
             [sample_columns,
              [''a'', '''', ''Ursus americanus'', ''Black bear'', ''Brewster'', '''', '''', ''''],
              [''b'', '''', ''Lynx rufus'', ''Bobcat'', ''Travis'', '''', '''', '''']]"
    unfolding r2 by (simp add: sample_defs getitem_def sample_fmt_def)
  have l2': "length (read_csv text2) = 3" using l2 by (simp add: scenario_df_def)
  from e n s t r w w' t2 r2' l2' show ?thesis
    by (auto simp: sample_df_def)
qed

section \<open>Start of the program\<close>




section \<open>The projections\<close>

text \<open>Claim C8. On a frame that has the columns \<^verbatim>\<open>update_views\<close> reads, the filter block
  yields a filtered collection whenever the date filter meets a date column and readable
  bounds (or is inactive); and for every filtered collection it yields, the view callback
  succeeds and its statistics table has exactly two rows: the number of distinct
  \<^verbatim>\<open>SRP_Num\<close> values and the number of distinct \<^verbatim>\<open>Scientific_Name\<close> values among the records
  of the filtered collection. For the collection of the records A and B both are 2.\<close>

theorem statistics_distinct_counts:
  assumes "view_columns df"
  shows "(date_filter_ok to_datetime df sd ed \<longrightarrow>
            (\<exists>fdf. update_views_filter to_datetime df srp sci sd ed = Inr fdf)) \<and>
         (\<forall>fdf. update_views_filter to_datetime df srp sci sd ed = Inr fdf \<longrightarrow>
            (\<exists>v. update_views to_datetime df srp sci sd ed = Inr v \<and>
               stats_table v =
                 [(''SRP Numbers'',
                     card ((\<lambda>r. getitem (columns fdf) r ''SRP_Num'') ` set (rows fdf))),
                  (''Scientific Names'',
                     card ((\<lambda>r. getitem (columns fdf) r ''Scientific_Name'') ` set (rows fdf)))]))"
proof (intro conjI allI impI)
  assume "date_filter_ok to_datetime df sd ed"
  moreover have "filter_columns df"
    using assms by (simp add: view_columns_def filter_columns_def)
  ultimately show "\<exists>fdf. update_views_filter to_datetime df srp sci sd ed = Inr fdf"
    using update_views_filter_eq[of df to_datetime sd ed srp sci] by blast
next
  fix fdf assume "update_views_filter to_datetime df srp sci sd ed = Inr fdf"
  from update_views_of_filter[OF assms this]
  show "\<exists>v. update_views to_datetime df srp sci sd ed = Inr v \<and>
               stats_table v =
                 [(''SRP Numbers'',
                     card ((\<lambda>r. getitem (columns fdf) r ''SRP_Num'') ` set (rows fdf))),
                  (''Scientific Names'',
                     card ((\<lambda>r. getitem (columns fdf) r ''Scientific_Name'') ` set (rows fdf)))]"
    by simp
qed

theorem statistics_distinct_counts_witness:
  "view_columns scenario_df \<and>
   update_views_filter sample_to_datetime scenario_df None None None None = Inr scenario_df \<and>
   (\<exists>v. update_views sample_to_datetime scenario_df None None None None = Inr v \<and>
        stats_table v = [(''SRP Numbers'', 2), (''Scientific Names'', 2)])"
proof -
  have h: "view_columns scenario_df" by (rule sample_view_columns)
  have f: "update_views_filter sample_to_datetime scenario_df None None None None =
           Inr scenario_df"
    by (rule sample_filter_unconstrained)
  from statistics_distinct_counts[OF h, of sample_to_datetime None None None None] f
  obtain v where "update_views sample_to_datetime scenario_df None None None None = Inr v"
    and "stats_table v =
      [(''SRP Numbers'',
          card ((\<lambda>r. getitem (columns scenario_df) r ''SRP_Num'') ` set (rows scenario_df))),
       (''Scientific Names'',
          card ((\<lambda>r. getitem (columns scenario_df) r ''Scientific_Name'') `
                set (rows scenario_df)))]"
    by blast
  then show ?thesis using h f
    by (auto simp: sample_defs getitem_def)
qed

text \<open>Claim C9 (as stated, refuted). The claim has the records with missing coordinates
  dropped from the map projection. Record B has no latitude, and the figure that
  \<^verbatim>\<open>update_views\<close> returns for the collection of A and B holds two entries, the second with a
  missing latitude and the tooltip fields of B: the program drops nothing.\<close>

theorem map_figure_unmappable_counterexample:
  "getitem (columns scenario_df) record_B ''Latitude_or_transect_start_latitude'' = NaN \<and>
   \<not> isl (update_views sample_to_datetime scenario_df None None None None) \<and>
   fig_lat (fig_map (projr (update_views sample_to_datetime scenario_df None None None None))) =
     [Num 30, NaN] \<and>
   fig_customdata
       (fig_map (projr (update_views sample_to_datetime scenario_df None None None None))) =
     [[Str ''a'', Str ''Ursus americanus'', Str ''Black bear'', Str ''Brewster'', Num 100],
      [Str ''b'', Str ''Lynx rufus'', Str ''Bobcat'', Str ''Travis'', Num 200]]"
  unfolding update_views_of_filter[OF sample_view_columns(2) sample_filter_unconstrained]
  by (simp add: tooltip_columns_def sample_defs getitem_def)

text \<open>Claim C9 (amended). For every filtered collection of a frame that has the columns
  \<^verbatim>\<open>update_views\<close> reads, the map figure holds one entry per filtered record, in order: its
  latitude cell, its longitude cell and the tooltip fields \<^verbatim>\<open>SRP_ID\<close>, \<^verbatim>\<open>Scientific_Name\<close>,
  \<^verbatim>\<open>Common_Name\<close>, \<^verbatim>\<open>County\<close>, \<^verbatim>\<open>SRP_Num\<close>, whether or not the coordinates are numbers; the
  table has a row for each of the same records and the statistics count over all of
  them.\<close>

theorem map_figure_holds_every_record:
  assumes "view_columns df" and "update_views_filter to_datetime df srp sci sd ed = Inr fdf"
  shows "\<exists>v. update_views to_datetime df srp sci sd ed = Inr v \<and>
      fig_lat (fig_map v) =
        map (\<lambda>r. getitem (columns df) r ''Latitude_or_transect_start_latitude'') (rows fdf) \<and>
      fig_lon (fig_map v) =
        map (\<lambda>r. getitem (columns df) r ''Longitude_or_transect_start_longitude'') (rows fdf) \<and>
      fig_hover_data (fig_map v) = tooltip_columns \<and>
      fig_customdata (fig_map v) =
        map (\<lambda>r. map (getitem (columns df) r) tooltip_columns) (rows fdf) \<and>
      tbody (table v) = map (\<lambda>r. map (getitem (columns df) r) (columns df)) (rows fdf) \<and>
      stats_table v =
        [(''SRP Numbers'', card ((\<lambda>r. getitem (columns df) r ''SRP_Num'') ` set (rows fdf))),
         (''Scientific Names'',
            card ((\<lambda>r. getitem (columns df) r ''Scientific_Name'') ` set (rows fdf)))]"
proof -
  have c: "columns fdf = columns df" by (rule filter_keeps_columns[OF assms(2)])
  show ?thesis
    using update_views_of_filter[OF assms] by (simp add: c make_table_def)
qed

theorem map_figure_holds_every_record_witness:
  "view_columns sample_df \<and>
   update_views_filter sample_to_datetime sample_df None None None None = Inr sample_df \<and>
   (\<exists>v. update_views sample_to_datetime sample_df None None None None = Inr v \<and>
      fig_lat (fig_map v) = [Num 30, NaN, Num 31, Num 29] \<and>
      fig_lon (fig_map v) = [Num (-103), Num (-97), Num (-98), Num (-104)] \<and>
      fig_customdata (fig_map v) =
        [[Str ''a'', Str ''Ursus americanus'', Str ''Black bear'', Str ''Brewster'', Num 100],
         [Str ''b'', Str ''Lynx rufus'', Str ''Bobcat'', Str ''Travis'', Num 200],
         [Str ''c'', Str ''Lynx rufus'', Str ''Bobcat'', Str ''Hays'', Num 200],
         [Str ''d'', Str ''Ursus americanus'', Str ''Black bear'', Str ''Presidio'', Num 100]] \<and>
      tbody (table v) = [record_A, record_B, record_C, record_D] \<and>
      stats_table v = [(''SRP Numbers'', 2), (''Scientific Names'', 2)])"
proof -
  have h: "view_columns sample_df" by (rule sample_view_columns)
  have f: "update_views_filter sample_to_datetime sample_df None None None None = Inr sample_df"
    by (rule sample_filter_unconstrained)
  from map_figure_holds_every_record[OF h f] obtain v where
    v: "update_views sample_to_datetime sample_df None None None None = Inr v"
    and p1: "fig_lat (fig_map v) =
      map (\<lambda>r. getitem (columns sample_df) r ''Latitude_or_transect_start_latitude'')
        (rows sample_df)"
    and p2: "fig_lon (fig_map v) =
      map (\<lambda>r. getitem (columns sample_df) r ''Longitude_or_transect_start_longitude'')
        (rows sample_df)"
    and p3: "fig_customdata (fig_map v) =
      map (\<lambda>r. map (getitem (columns sample_df) r) tooltip_columns) (rows sample_df)"
    and p4: "tbody (table v) =
      map (\<lambda>r. map (getitem (columns sample_df) r) (columns sample_df)) (rows sample_df)"
    and p5: "stats_table v =
      [(''SRP Numbers'',
          card ((\<lambda>r. getitem (columns sample_df) r ''SRP_Num'') ` set (rows sample_df))),
       (''Scientific Names'',
          card ((\<lambda>r. getitem (columns sample_df) r ''Scientific_Name'') `
                set (rows sample_df)))]"
    by blast
  have q1: "fig_lat (fig_map v) = [Num 30, NaN, Num 31, Num 29]"
    unfolding p1 by (simp add: sample_defs getitem_def)
  have q2: "fig_lon (fig_map v) = [Num (-103), Num (-97), Num (-98), Num (-104)]"
    unfolding p2 by (simp add: sample_defs getitem_def)
  have q3: "fig_customdata (fig_map v) =
        [[Str ''a'', Str ''Ursus americanus'', Str ''Black bear'', Str ''Brewster'', Num 100],
         [Str ''b'', Str ''Lynx rufus'', Str ''Bobcat'', Str ''Travis'', Num 200],
         [Str ''c'', Str ''Lynx rufus'', Str ''Bobcat'', Str ''Hays'', Num 200],
         [Str ''d'', Str ''Ursus americanus'', Str ''Black bear'', Str ''Presidio'', Num 100]]"
    unfolding p3 by (simp add: sample_defs getitem_def tooltip_columns_def)
  have q4: "tbody (table v) = [record_A, record_B, record_C, record_D]"
    unfolding p4 by (simp add: sample_defs getitem_def)
  have q5: "stats_table v = [(''SRP Numbers'', 2), (''Scientific Names'', 2)]"
    unfolding p5 by (simp add: sample_defs getitem_def card_insert_if)
  from h f v q1 q2 q3 q4 q5 show ?thesis by blast
qed

section \<open>An inverted date range\<close>

text \<open>Claim C10 (as stated, refuted). The claim speaks of every record collection. In a
  spreadsheet where no record has an observation date, both filter blocks raise
  \<^verbatim>\<open>TypeError\<close> for an inverted range, as for any other range, and return no collection.\<close>

theorem inverted_range_undated_counterexample:
  "the (sample_to_datetime ''2023-01-01'') < the (sample_to_datetime ''2023-12-31'') \<and>
   update_views_filter sample_to_datetime undated_df None None
       (Some ''2023-12-31'') (Some ''2023-01-01'') = Inl (TypeError ''>='') \<and>
   download_data_filter sample_to_datetime undated_df None None
       (Some ''2023-12-31'') (Some ''2023-01-01'') = Inl (TypeError ''>='')"
  by (simp add: sample_to_datetime_def undated_df_def sample_columns_def
      download_data_filter_eq update_views_filter_def
      truthy_def truthy_text_def series_def dtype_of_def series_ge_def)

text \<open>Claim C10 (amended). On a frame with the filter columns whose observation dates are
  a date column, when both date bounds are given, read as dates, and the start is strictly
  after the end, both filter blocks return the frame with no rows, whatever the selections
  are.\<close>

theorem inverted_range_empty:
  assumes "filter_columns df" and "date_column df"
    and "start \<noteq> []" and "end \<noteq> []"
    and "to_datetime start = Some a" and "to_datetime end = Some b" and "b < a"
  shows "update_views_filter to_datetime df srp sci (Some start) (Some end) =
           Inr (df\<lparr>rows := []\<rparr>) \<and>
         download_data_filter to_datetime df srp sci (Some start) (Some end) =
           Inr (df\<lparr>rows := []\<rparr>)"
proof -
  have ok: "date_filter_ok to_datetime df (Some start) (Some end)"
    using assms by (simp add: date_filter_ok_def)
  have "\<not> in_range (Some a) (Some b) v" for v
    using assms(7) by (auto simp: in_range_def split: cell.splits)
  then have "filter (survives to_datetime (columns df) srp sci (Some start) (Some end))
               (rows df) = []"
    using assms(3-6) by (simp add: survives_def date_ok_def truthy_text_def filter_empty_conv)
  with update_views_filter_eq[OF assms(1) ok, of srp sci]
  show ?thesis by (simp add: download_data_filter_eq)
qed

theorem inverted_range_empty_witness:
  "filter_columns sample_df \<and> date_column sample_df \<and>
   sample_to_datetime ''2023-12-31'' = Some 1703980800000000000 \<and>
   sample_to_datetime ''2023-01-01'' = Some 1672531200000000000 \<and>
   (1672531200000000000 :: int) < 1703980800000000000 \<and>
   update_views_filter sample_to_datetime sample_df None None
       (Some ''2023-12-31'') (Some ''2023-01-01'') =
     Inr \<lparr>columns = sample_columns, dtypes = sample_dtypes, rows = []\<rparr> \<and>
   download_data_filter sample_to_datetime sample_df None None
       (Some ''2023-12-31'') (Some ''2023-01-01'') =
     Inr \<lparr>columns = sample_columns, dtypes = sample_dtypes, rows = []\<rparr>"
proof -
  have h: "filter_columns sample_df" by (rule sample_filter_columns)
  have d: "date_column sample_df" by (simp add: date_column_def dtype_of_def sample_defs)
  have s: "''2023-12-31'' \<noteq> []" and e: "''2023-01-01'' \<noteq> []" by simp_all
  have a: "sample_to_datetime ''2023-12-31'' = Some 1703980800000000000"
    and b: "sample_to_datetime ''2023-01-01'' = Some 1672531200000000000"
    by (simp_all add: sample_to_datetime_def)
  have l: "(1672531200000000000 :: int) < 1703980800000000000" by simp
  show ?thesis
    using h d a b l inverted_range_empty[OF h d s e a b l, of None None]
    by (simp add: sample_df_def)
qed

end
